theory Spec2Isabelle
  imports Main "HOL-Library.Sublist"
begin

section \<open>Python values used by the client\<close>

text \<open>
  A Python \<open>str\<close> is a sequence of Unicode code points. The markers of the classifier are
  Chinese text, so a string is a list of code points (natural numbers); \<open>ascii\<close> embeds an
  ASCII literal.
\<close>

type_synonym cp = nat
type_synonym ustring = "cp list"

definition ascii :: "string \<Rightarrow> ustring" where
  "ascii s = map of_char s"

text \<open>
  The value of \<open>response.text\<close> is whatever the session object hands back: a \<open>str\<close>, or
  an object that is not a string (\<open>None\<close>), on which \<open>re.search\<close> raises \<open>TypeError\<close>.
\<close>

datatype pyobj = PyStr ustring | PyNone

text \<open>
  Raised exceptions. \<open>Exception m\<close> is any instance of a subclass of \<open>Exception\<close> other
  than \<open>TypeError\<close> (a transport failure of the HTTP library among them), with \<open>str(e) = m\<close>;
  \<open>BaseException m\<close> is an exception outside \<open>Exception\<close> (\<open>KeyboardInterrupt\<close>,
  \<open>SystemExit\<close>), which \<open>except Exception\<close> lets through.
\<close>

datatype exn = TypeError | Exception ustring | BaseException ustring

fun is_Exception :: "exn \<Rightarrow> bool" where
  "is_Exception TypeError = True"
| "is_Exception (Exception m) = True"
| "is_Exception (BaseException m) = False"

section \<open>The regular expressions of the client\<close>

text \<open>
  The patterns of the source are sequences of two kinds of item: a literal character, and
  a capturing group \<open>(C+)\<close> over a character class \<open>C\<close>, greedy, with backtracking.
  A match is the pair of \<open>match.group()\<close> and \<open>match.group(1)\<close> (absent when the pattern
  has no group).
\<close>

datatype atom = Lit cp | CapPlus "cp \<Rightarrow> bool"

type_synonym regex = "atom list"
type_synonym rmatch = "ustring \<times> ustring option"

definition lits :: "ustring \<Rightarrow> regex" where
  "lits s = map Lit s"

text \<open>\<open>backtrack k s n\<close>: the longest \<open>m \<le> n\<close>, \<open>m > 0\<close>, such that the rest of the pattern
  (\<open>k\<close>) matches after the first \<open>m\<close> characters of \<open>s\<close>.\<close>

fun backtrack :: "(ustring \<Rightarrow> 'a option) \<Rightarrow> ustring \<Rightarrow> nat \<Rightarrow> (nat \<times> 'a) option" where
  "backtrack k s 0 = None"
| "backtrack k s (Suc n) =
     (case k (drop (Suc n) s) of
        Some r \<Rightarrow> Some (Suc n, r)
      | None \<Rightarrow> backtrack k s n)"

text \<open>\<open>match_here p s\<close>: the match of pattern \<open>p\<close> anchored at the start of \<open>s\<close>.\<close>

fun match_here :: "regex \<Rightarrow> ustring \<Rightarrow> rmatch option" where
  "match_here [] s = Some ([], None)"
| "match_here (Lit c # p) s =
     (case s of
        [] \<Rightarrow> None
      | x # xs \<Rightarrow>
          if x = c then map_option (\<lambda>(m, g). (x # m, g)) (match_here p xs) else None)"
| "match_here (CapPlus C # p) s =
     (case backtrack (\<lambda>t. match_here p t) s (length (takeWhile C s)) of
        None \<Rightarrow> None
      | Some (n, (m, g)) \<Rightarrow> Some (take n s @ m, Some (take n s)))"

text \<open>\<open>re.search\<close> on a \<open>str\<close>: the match at the leftmost start position that has one.\<close>

fun search_str :: "regex \<Rightarrow> ustring \<Rightarrow> rmatch option" where
  "search_str p [] = match_here p []"
| "search_str p (x # xs) =
     (case match_here p (x # xs) of
        Some m \<Rightarrow> Some m
      | None \<Rightarrow> search_str p xs)"

text \<open>\<open>re.search(pattern, obj)\<close>: \<open>TypeError\<close> when the object is not a string.\<close>

fun re_search :: "regex \<Rightarrow> pyobj \<Rightarrow> exn + rmatch option" where
  "re_search p (PyStr s) = Inr (search_str p s)"
| "re_search p PyNone = Inl TypeError"

text \<open>\<open>match.group(1)\<close>: \<open>IndexError\<close> (an \<open>Exception\<close>) when the pattern has no group.\<close>

fun group1 :: "rmatch \<Rightarrow> exn + ustring" where
  "group1 (m, Some g) = Inr g"
| "group1 (m, None) = Inl (Exception (ascii ''no such group''))"

subsection \<open>The literals of the source\<close>

text \<open>The four literal markers, as code points: the platform title, "personal center",
  "my desktop", "academic record"; and the logout label.\<close>

definition title_marker :: ustring where
  "title_marker = [0x6559, 0x5B66, 0x4E00, 0x4F53, 0x5316, 0x670D, 0x52A1, 0x5E73, 0x53F0]"

definition personal_center :: ustring where
  "personal_center = [0x4E2A, 0x4EBA, 0x4E2D, 0x5FC3]"

definition my_desktop :: ustring where
  "my_desktop = [0x6211, 0x7684, 0x684C, 0x9762]"

definition academic_record :: ustring where
  "academic_record = [0x5B66, 0x7C4D, 0x6210, 0x7EE9]"

definition logout_label :: ustring where
  "logout_label = [0x9000, 0x51FA]"

definition open_tag :: ustring where
  \<open>open_tag = ascii ''<span class="glyphicon-class">''\<close>

definition close_tag :: ustring where
  "close_tag = ascii ''</span>''"

text \<open>The character class of the name pattern: any character except \<open><\<close> (0x3C) and the
  two characters of the logout label (0x9000 and 0x51FA).\<close>

definition name_class :: "cp \<Rightarrow> bool" where
  "name_class c = (c \<notin> set [0x3C, 0x9000, 0x51FA])"

definition name_pattern :: regex where
  "name_pattern = lits open_tag @ [CapPlus name_class] @ lits close_tag"

text \<open>\<open>var userid = '(\d+)';\<close> where \<open>\d\<close> is the decimal-digit class of the Python
  runtime's Unicode tables, a parameter here.\<close>

definition userid_pattern :: "(cp \<Rightarrow> bool) \<Rightarrow> regex" where
  "userid_pattern isdecimal =
     lits (ascii ''var userid = '' @ [0x27]) @ [CapPlus isdecimal] @ lits ([0x27] @ ascii '';'')"

definition patterns :: "regex list" where
  "patterns =
     [lits title_marker, lits personal_center, lits my_desktop, lits academic_record,
      name_pattern]"

subsection \<open>\<open>str.strip()\<close>\<close>

definition isspace :: "cp \<Rightarrow> bool" where
  "isspace c =
     ((0x09 \<le> c \<and> c \<le> 0x0D) \<or> (0x1C \<le> c \<and> c \<le> 0x20) \<or> c = 0x85 \<or> c = 0xA0 \<or>
      c = 0x1680 \<or> (0x2000 \<le> c \<and> c \<le> 0x200A) \<or> c = 0x2028 \<or> c = 0x2029 \<or>
      c = 0x202F \<or> c = 0x205F \<or> c = 0x3000)"

definition strip :: "ustring \<Rightarrow> ustring" where
  "strip s = rev (dropWhile isspace (rev (dropWhile isspace s)))"

section \<open>Log entries, responses and the trace of a run\<close>

text \<open>
  One constructor for each logging call of the source, carrying the values interpolated
  into its message.
\<close>

datatype log_entry =
    InfoGettingToken
  | ErrTokenFailed
  | InfoGotRedirect ustring
  | InfoRedirectStatus int
  | DebugRedirectHeaders "(ustring \<times> ustring) list"
  | InfoVisitingSso
  | InfoSsoStatus int
  | DebugSsoHeaders "(ustring \<times> ustring) list"
  | InfoMainStatus int
  | DebugMainHeaders "(ustring \<times> ustring) list"
  | InfoLoginOk
  | ErrLoginFailed
  | ErrSsoError exn
  | InfoMatched ustring
  | ErrNoMarker
  | ErrPleaseLogin
  | ErrStudentInfoStatus int
  | ErrStudentInfoError exn

record response =
  status_code :: int
  headers :: "(ustring \<times> ustring) list"
  resp_text :: pyobj

text \<open>An event of a run: a GET issued through the session (URL, the \<open>allow_redirects\<close>
  argument when given, and what the call produced), or a log entry.\<close>

datatype event =
    Get ustring "bool option" "exn + response"
  | Log log_entry

section \<open>The login-success classifier\<close>

text \<open>The \<open>for\<close> loop of \<open>_check_login_success\<close> over the remaining patterns; the empty
  list is the code after the loop.\<close>

fun check_loop :: "regex list \<Rightarrow> pyobj \<Rightarrow> (exn + bool) \<times> log_entry list" where
  "check_loop [] html = (Inr False, [ErrNoMarker])"
| "check_loop (p # ps) html =
     (case re_search p html of
        Inl e \<Rightarrow> (Inl e, [])
      | Inr (Some m) \<Rightarrow> (Inr True, [InfoMatched (fst m)])
      | Inr None \<Rightarrow> check_loop ps html)"

definition check_login_success :: "pyobj \<Rightarrow> (exn + bool) \<times> log_entry list" where
  "check_login_success html = check_loop patterns html"

section \<open>Parsing the student information page\<close>

definition parse_student_info ::
  "(cp \<Rightarrow> bool) \<Rightarrow> pyobj \<Rightarrow> exn + (string \<rightharpoonup> ustring)" where
  "parse_student_info isdecimal html =
     (case re_search name_pattern html of
        Inl e \<Rightarrow> Inl e
      | Inr name_match \<Rightarrow>
          (case (case name_match of
                   None \<Rightarrow> Inr Map.empty
                 | Some m \<Rightarrow>
                     (case group1 m of
                        Inl e \<Rightarrow> Inl e
                      | Inr g \<Rightarrow>
                          (let name = strip g in
                           if name \<noteq> [] \<and> name \<noteq> logout_label
                           then Inr [''name'' \<mapsto> name]
                           else Inr Map.empty))) of
             Inl e \<Rightarrow> Inl e
           | Inr info \<Rightarrow>
               (case re_search (userid_pattern isdecimal) html of
                  Inl e \<Rightarrow> Inl e
                | Inr None \<Rightarrow> Inr info
                | Inr (Some m) \<Rightarrow>
                    (case group1 m of
                       Inl e \<Rightarrow> Inl e
                     | Inr g \<Rightarrow> Inr (info(''student_id'' \<mapsto> g))))))"

section \<open>The environment of the client\<close>

text \<open>
  The collaborators of \<open>ZhjwClient\<close> live outside \<open>zhjw.py\<close> and \<open>example.py\<close>: the
  credential exchange (\<open>QfnuAuthClient.get_token\<close> in \<open>zhjw.py\<close>, \<open>get_redir_uri\<close> in
  \<open>example.py\<close>), the HTTP session (\<open>SessionManager.get\<close> in \<open>zhjw.py\<close>,
  \<open>QfnuAuthClient.get\<close> in \<open>example.py\<close>), the truth value of a \<open>SessionManager\<close>
  instance, the update of the session's default headers, and the decimal-digit table
  behind \<open>\d\<close>. They are parameters, acting on a world \<open>'w\<close> that holds everything outside
  the client (cookie jar, network). \<open>login\<close>, \<open>_complete_sso_login\<close> and
  \<open>_check_login_success\<close> are the same in both files up to these names; \<open>get_student_info\<close>
  and \<open>_parse_student_info\<close> are in \<open>zhjw.py\<close> only.
\<close>

record 'w env =
  get_token :: "'w \<Rightarrow> ustring \<Rightarrow> ustring \<Rightarrow> ustring \<Rightarrow> (exn + ustring option) \<times> 'w"
  session_get :: "'w \<Rightarrow> ustring \<Rightarrow> bool option \<Rightarrow> (exn + response) \<times> 'w"
  session_bool :: "'w \<Rightarrow> bool"
  headers_update :: "'w \<Rightarrow> (ustring \<times> ustring) list \<Rightarrow> 'w"
  isdecimal :: "cp \<Rightarrow> bool"

record 'w st =
  world :: 'w
  trace :: "event list"

definition emit :: "log_entry list \<Rightarrow> 'w st \<Rightarrow> 'w st" where
  "emit ls st = st\<lparr>trace := trace st @ map Log ls\<rparr>"

text \<open>\<open>self.session.get(url, allow_redirects=...)\<close>, recorded in the trace.\<close>

definition do_get ::
  "'w env \<Rightarrow> ustring \<Rightarrow> bool option \<Rightarrow> 'w st \<Rightarrow> (exn + response) \<times> 'w st" where
  "do_get env url allow st =
     (case session_get env (world st) url allow of
        (r, w) \<Rightarrow> (r, \<lparr>world = w, trace = trace st @ [Get url allow r]\<rparr>))"

section \<open>The client object\<close>

text \<open>An attribute of the client holds \<open>None\<close> or an instance; the state of an instance
  is part of the world.\<close>

datatype pyinst = QfnuAuthClient | SessionManager

record client =
  auth_client :: "pyinst option"
  session :: "pyinst option"
  base_url :: ustring

definition browser_headers :: "(ustring \<times> ustring) list" where
  "browser_headers =
     [(ascii ''User-Agent'',
       ascii ''Mozilla/5.0 (Windows NT 10.0; Win64; x64) AppleWebKit/537.36 (KHTML, like Gecko) Chrome/137.0.0.0 Safari/537.36''),
      (ascii ''Accept'',
       ascii ''text/html,application/xhtml+xml,application/xml;q=0.9,image/avif,image/webp,image/apng,*/*;q=0.8,application/signed-exchange;v=b3;q=0.7''),
      (ascii ''Accept-Language'', ascii ''zh-CN,zh;q=0.9,en-US;q=0.8,en;q=0.7''),
      (ascii ''Accept-Encoding'', ascii ''gzip, deflate''),
      (ascii ''Upgrade-Insecure-Requests'', ascii ''1''),
      (ascii ''Cache-Control'', ascii ''no-cache''),
      (ascii ''Pragma'', ascii ''no-cache'')]"

text \<open>\<open>ZhjwClient.__init__\<close>: the new client and the world with the headers updated.\<close>

definition init :: "'w env \<Rightarrow> 'w \<Rightarrow> client \<times> 'w" where
  "init env w =
     (\<lparr>auth_client = Some QfnuAuthClient, session = Some SessionManager,
       base_url = ascii ''http://zhjw.qfnu.edu.cn''\<rparr>,
      headers_update env w browser_headers)"

text \<open>Truth value of an attribute in a condition: \<open>None\<close> is false, a \<open>SessionManager\<close>
  has the truth value its class gives it.\<close>

fun truthy :: "'w env \<Rightarrow> 'w \<Rightarrow> pyinst option \<Rightarrow> bool" where
  "truthy env w None = False"
| "truthy env w (Some SessionManager) = session_bool env w"
| "truthy env w (Some QfnuAuthClient) = True"

section \<open>The SSO login orchestrator\<close>

definition target_url :: ustring where
  "target_url =
     ascii ''http://ids.qfnu.edu.cn/authserver/login?service=http://zhjw.qfnu.edu.cn/sso.jsp''"

definition sso_url :: ustring where
  "sso_url = ascii ''http://zhjw.qfnu.edu.cn/sso.jsp''"

definition main_url :: ustring where
  "main_url = ascii ''http://zhjw.qfnu.edu.cn/jsxsd/framework/xsMain.jsp''"

text \<open>The \<open>except Exception as e\<close> clause of \<open>_complete_sso_login\<close>: an \<open>Exception\<close> is
  logged and turned into \<open>False\<close>; anything else propagates.\<close>

definition sso_except :: "exn \<Rightarrow> 'w st \<Rightarrow> (exn + bool) \<times> 'w st" where
  "sso_except e st =
     (if is_Exception e then (Inr False, emit [ErrSsoError e] st) else (Inl e, st))"

definition complete_sso_login :: "'w env \<Rightarrow> ustring \<Rightarrow> 'w st \<Rightarrow> (exn + bool) \<times> 'w st" where
  "complete_sso_login env redirect_url st =
     (case do_get env redirect_url (Some True) st of
        (Inl e, st1) \<Rightarrow> sso_except e st1
      | (Inr r1, st1) \<Rightarrow>
          (case do_get env sso_url (Some True)
                  (emit [InfoRedirectStatus (status_code r1), DebugRedirectHeaders (headers r1),
                         InfoVisitingSso] st1) of
             (Inl e, st2) \<Rightarrow> sso_except e st2
           | (Inr r2, st2) \<Rightarrow>
               (case do_get env main_url (Some True)
                       (emit [InfoSsoStatus (status_code r2), DebugSsoHeaders (headers r2)] st2) of
                  (Inl e, st3) \<Rightarrow> sso_except e st3
                | (Inr r3, st3) \<Rightarrow>
                    (case check_login_success (resp_text r3) of
                       (Inl e, ls) \<Rightarrow>
                         sso_except e
                           (emit ([InfoMainStatus (status_code r3), DebugMainHeaders (headers r3)] @ ls)
                              st3)
                     | (Inr ok, ls) \<Rightarrow>
                         (Inr ok,
                          emit ([InfoMainStatus (status_code r3), DebugMainHeaders (headers r3)] @ ls @
                                [if ok then InfoLoginOk else ErrLoginFailed])
                            st3)))))"

text \<open>\<open>ZhjwClient.login\<close>. The credential exchange is called outside any \<open>try\<close>: what it
  raises propagates. \<open>not redirect_url\<close> holds for \<open>None\<close> and for the empty string.\<close>

definition login :: "'w env \<Rightarrow> ustring \<Rightarrow> ustring \<Rightarrow> 'w st \<Rightarrow> (exn + bool) \<times> 'w st" where
  "login env username password st =
     (let st0 = emit [InfoGettingToken] st in
      case get_token env (world st0) username password target_url of
        (r, w) \<Rightarrow>
          (let st1 = st0\<lparr>world := w\<rparr> in
           case r of
             Inl e \<Rightarrow> (Inl e, st1)
           | Inr None \<Rightarrow> (Inr False, emit [ErrTokenFailed] st1)
           | Inr (Some redirect_url) \<Rightarrow>
               if redirect_url = [] then (Inr False, emit [ErrTokenFailed] st1)
               else complete_sso_login env redirect_url (emit [InfoGotRedirect redirect_url] st1)))"

section \<open>Fetching the student information\<close>

definition info_path :: ustring where
  "info_path = ascii ''/jsxsd/framework/xsMain_new.jsp''"

definition info_except :: "exn \<Rightarrow> 'w st \<Rightarrow> (exn + (string \<rightharpoonup> ustring) option) \<times> 'w st" where
  "info_except e st =
     (if is_Exception e then (Inr None, emit [ErrStudentInfoError e] st) else (Inl e, st))"

definition get_student_info ::
  "'w env \<Rightarrow> client \<Rightarrow> 'w st \<Rightarrow> (exn + (string \<rightharpoonup> ustring) option) \<times> 'w st" where
  "get_student_info env self st =
     (if \<not> truthy env (world st) (session self) then (Inr None, emit [ErrPleaseLogin] st)
      else
        (case do_get env (base_url self @ info_path) None st of
           (Inl e, st1) \<Rightarrow> info_except e st1
         | (Inr r, st1) \<Rightarrow>
             if status_code r = 200 then
               (case parse_student_info (isdecimal env) (resp_text r) of
                  Inl e \<Rightarrow> info_except e st1
                | Inr info \<Rightarrow> (Inr (Some info), st1))
             else (Inr None, emit [ErrStudentInfoStatus (status_code r)] st1)))"

section \<open>Observations on a trace\<close>

text \<open>The GET requests of a trace, in order.\<close>

fun gets :: "event list \<Rightarrow> (ustring \<times> bool option \<times> (exn + response)) list" where
  "gets [] = []"
| "gets (Get url allow r # es) = (url, allow, r) # gets es"
| "gets (Log l # es) = gets es"

text \<open>A fresh run: nothing recorded yet.\<close>

definition start :: "'w \<Rightarrow> 'w st" where
  "start w = \<lparr>world = w, trace = []\<rparr>"

section \<open>Scripted environments and sample pages\<close>

text \<open>
  An environment for running the client on concrete inputs: the credential exchange
  answers \<open>tok\<close>, and the \<open>n\<close>-th GET of the session produces the \<open>n\<close>-th entry of the
  script \<open>rs\<close> (a refused connection once the script is used up). The world is the number
  of GETs issued so far.
\<close>

text \<open>The characters \<open>\d\<close> matches in a \<open>str\<close> pattern: general category Nd of Unicode
  14.0 (the tables of CPython 3.11), as ranges of code points.\<close>

definition decimal_ranges :: "(cp \<times> cp) list" where
  "decimal_ranges =
     [(0x30, 0x39), (0x660, 0x669), (0x6F0, 0x6F9), (0x7C0, 0x7C9), (0x966, 0x96F),
      (0x9E6, 0x9EF), (0xA66, 0xA6F), (0xAE6, 0xAEF), (0xB66, 0xB6F), (0xBE6, 0xBEF),
      (0xC66, 0xC6F), (0xCE6, 0xCEF), (0xD66, 0xD6F), (0xDE6, 0xDEF), (0xE50, 0xE59),
      (0xED0, 0xED9), (0xF20, 0xF29), (0x1040, 0x1049), (0x1090, 0x1099), (0x17E0, 0x17E9),
      (0x1810, 0x1819), (0x1946, 0x194F), (0x19D0, 0x19D9), (0x1A80, 0x1A89),
      (0x1A90, 0x1A99), (0x1B50, 0x1B59), (0x1BB0, 0x1BB9), (0x1C40, 0x1C49),
      (0x1C50, 0x1C59), (0xA620, 0xA629), (0xA8D0, 0xA8D9), (0xA900, 0xA909),
      (0xA9D0, 0xA9D9), (0xA9F0, 0xA9F9), (0xAA50, 0xAA59), (0xABF0, 0xABF9),
      (0xFF10, 0xFF19), (0x104A0, 0x104A9), (0x10D30, 0x10D39), (0x11066, 0x1106F),
      (0x110F0, 0x110F9), (0x11136, 0x1113F), (0x111D0, 0x111D9), (0x112F0, 0x112F9),
      (0x11450, 0x11459), (0x114D0, 0x114D9), (0x11650, 0x11659), (0x116C0, 0x116C9),
      (0x11730, 0x11739), (0x118E0, 0x118E9), (0x11950, 0x11959), (0x11C50, 0x11C59),
      (0x11D50, 0x11D59), (0x11DA0, 0x11DA9), (0x16A60, 0x16A69), (0x16AC0, 0x16AC9),
      (0x16B50, 0x16B59), (0x1D7CE, 0x1D7FF), (0x1E140, 0x1E149), (0x1E2F0, 0x1E2F9),
      (0x1E950, 0x1E959), (0x1FBF0, 0x1FBF9)]"

definition unicode_decimal :: "cp \<Rightarrow> bool" where
  "unicode_decimal c = list_ex (\<lambda>(lo, hi). lo \<le> c \<and> c \<le> hi) decimal_ranges"

definition scripted_get :: "(exn + response) list \<Rightarrow> nat \<Rightarrow> exn + response" where
  "scripted_get rs n =
     (case drop n rs of [] \<Rightarrow> Inl (Exception (ascii ''connection refused'')) | r # _ \<Rightarrow> r)"

definition scripted_env :: "(exn + ustring option) \<Rightarrow> (exn + response) list \<Rightarrow> nat env" where
  "scripted_env tok rs =
     \<lparr>get_token = (\<lambda>w username password redir_uri. (tok, w)),
      session_get = (\<lambda>w url allow. (scripted_get rs w, Suc w)),
      session_bool = (\<lambda>w. True),
      headers_update = (\<lambda>w hs. w),
      isdecimal = unicode_decimal\<rparr>"

definition page :: "int \<Rightarrow> pyobj \<Rightarrow> response" where
  "page code body = \<lparr>status_code = code, headers = [], resp_text = body\<rparr>"

definition ticket_url :: ustring where
  "ticket_url = ascii ''http://zhjw.example.edu/sso.jsp?ticket=T1''"

definition sample_user :: ustring where
  "sample_user = ascii ''2021000001''"

definition sample_password :: ustring where
  "sample_password = ascii ''secret''"

definition timeout_error :: exn where
  "timeout_error = Exception (ascii ''connection timed out'')"

text \<open>Sample bodies: the span holding the name Zhang San (0x5F20 0x4E09); the span holding
  the logout label; the span holding the name Chen Chuxin (0x9648 0x51FA 0x65B0), whose
  middle character is the second character of the logout label; the span holding one
  space; and a login wall with no marker.\<close>

definition zhangsan :: ustring where
  "zhangsan = [0x5F20, 0x4E09]"

definition zhangsan_span :: ustring where
  "zhangsan_span = open_tag @ zhangsan @ close_tag"

definition logout_span :: ustring where
  "logout_span = open_tag @ logout_label @ close_tag"

definition chenchuxin :: ustring where
  "chenchuxin = [0x9648, 0x51FA, 0x65B0]"

definition chenchuxin_span :: ustring where
  "chenchuxin_span = open_tag @ chenchuxin @ close_tag"

definition blank_span :: ustring where
  "blank_span = open_tag @ [0x20] @ close_tag"

definition login_wall :: ustring where
  "login_wall = ascii ''<html><body><form id=login></form></body></html>''"

text \<open>Sample runs. The ticket is accepted and the landing page shows the "my desktop"
  menu; the landing page is a login wall; the credential exchange yields nothing; the
  redemption GET times out; the redemption GET answers and the bootstrap GET is refused;
  the landing page comes back without a text; the intermediate answers are 404 and 500.\<close>

definition env_authenticated :: "nat env" where
  "env_authenticated =
     scripted_env (Inr (Some ticket_url))
       [Inr (page 200 (PyStr [])), Inr (page 200 (PyStr [])), Inr (page 200 (PyStr my_desktop))]"

definition env_login_wall :: "nat env" where
  "env_login_wall =
     scripted_env (Inr (Some ticket_url))
       [Inr (page 200 (PyStr [])), Inr (page 200 (PyStr [])), Inr (page 200 (PyStr login_wall))]"

definition env_bad_credentials :: "nat env" where
  "env_bad_credentials = scripted_env (Inr None) []"

definition env_timeout :: "nat env" where
  "env_timeout = scripted_env (Inr (Some ticket_url)) [Inl timeout_error]"

definition refused_error :: exn where
  "refused_error = Exception (ascii ''connection refused'')"

definition env_bootstrap_refused :: "nat env" where
  "env_bootstrap_refused =
     scripted_env (Inr (Some ticket_url)) [Inr (page 200 (PyStr [])), Inl refused_error]"

definition env_body_none :: "nat env" where
  "env_body_none =
     scripted_env (Inr (Some ticket_url))
       [Inr (page 200 (PyStr [])), Inr (page 200 (PyStr [])), Inr (page 200 PyNone)]"

definition env_odd_statuses :: "nat env" where
  "env_odd_statuses =
     scripted_env (Inr (Some ticket_url))
       [Inr (page 404 (PyStr [])), Inr (page 500 (PyStr [])), Inr (page 200 (PyStr my_desktop))]"

section \<open>Facts about the regular expressions\<close>

text \<open>A pattern that starts with literal characters matches exactly when the text starts
  with them and the rest of the pattern matches what follows.\<close>

lemma match_here_lits:
  "match_here (lits p @ q) s =
     (if prefix p s then map_option (\<lambda>(m, g). (p @ m, g)) (match_here q (drop (length p) s)) else None)"
proof (induction p arbitrary: s)
  case Nil
  then show ?case by (simp add: lits_def option.map_ident split_def) 
next
  case (Cons c p)
  show ?case
  proof (cases s)
    case Nil
    then show ?thesis by (simp add: lits_def)
  next
    case (Cons x xs)
    then show ?thesis using Cons.IH[of xs]
      by (auto simp: lits_def option.map_comp comp_def split_def)
  qed
qed

lemma match_here_lits_only:
  "match_here (lits p) s = (if prefix p s then Some (p, None) else None)"
  using match_here_lits[of p "[]" s] by simp

lemma search_lits:
  "search_str (lits p) s = (if sublist p s then Some (p, None) else None)"
proof (induction s)
  case Nil
  then show ?case by (simp add: match_here_lits_only)
next
  case (Cons x xs)
  then show ?case by (auto simp: match_here_lits_only sublist_Cons_right)
qed


lemma backtrack_none:
  "(\<And>m. 0 < m \<Longrightarrow> m \<le> n \<Longrightarrow> k (drop m s) = None) \<Longrightarrow> backtrack k s n = None"
  by (induction n) auto

lemma name_class_lt: "\<not> name_class 0x3C"
  by (simp add: name_class_def)

lemma close_tag_hd: "close_tag = 0x3C # ascii ''/span>''"
  by (simp add: close_tag_def ascii_def)

text \<open>Inside the run of class characters the closing tag cannot start.\<close>

lemma no_close_inside_run:
  assumes "m < length (takeWhile name_class s)"
  shows "\<not> prefix close_tag (drop m s)"
proof
  assume p: "prefix close_tag (drop m s)"
  from assms have ml: "m < length s"
    using length_takeWhile_le[of name_class s] by simp
  from assms have "name_class (takeWhile name_class s ! m)"
    using nth_mem set_takeWhileD by metis
  with assms have nc: "name_class (s ! m)" by (simp add: takeWhile_nth)
  from ml have "drop m s = s ! m # drop (Suc m) s" by (simp add: Cons_nth_drop_Suc)
  with p have "s ! m = 0x3C" by (simp add: close_tag_hd)
  with nc show False by (simp add: name_class_lt)
qed

lemma backtrack_close:
  "backtrack (\<lambda>t. match_here (lits close_tag) t) s (length (takeWhile name_class s)) =
     (if takeWhile name_class s \<noteq> [] \<and> prefix close_tag (drop (length (takeWhile name_class s)) s)
      then Some (length (takeWhile name_class s), (close_tag, None)) else None)"
proof -
  let ?n = "length (takeWhile name_class s)"
  let ?k = "\<lambda>t. match_here (lits close_tag) t"
  have below: "\<And>j. j < ?n \<Longrightarrow> backtrack ?k s j = None"
  proof -
    fix j assume j: "j < ?n"
    show "backtrack ?k s j = None"
    proof (rule backtrack_none)
      fix m assume "0 < m" "m \<le> j"
      with j have "m < ?n" by simp
      then show "match_here (lits close_tag) (drop m s) = None"
        using no_close_inside_run[of m s] by (simp add: match_here_lits_only)
    qed
  qed
  show ?thesis
  proof (cases ?n)
    case 0
    then show ?thesis by simp
  next
    case (Suc j)
    then have "j < ?n" by simp
    from below[OF this] Suc show ?thesis
      by (auto simp: match_here_lits_only)
  qed
qed

lemma match_here_name:
  "match_here name_pattern s =
     (if prefix open_tag s \<and> takeWhile name_class (drop (length open_tag) s) \<noteq> [] \<and>
         prefix close_tag (dropWhile name_class (drop (length open_tag) s))
      then Some (open_tag @ takeWhile name_class (drop (length open_tag) s) @ close_tag,
                 Some (takeWhile name_class (drop (length open_tag) s)))
      else None)"
proof -
  let ?r = "drop (length open_tag) s"
  have d: "drop (length (takeWhile name_class ?r)) ?r = dropWhile name_class ?r"
    by (rule dropWhile_eq_drop[symmetric])
  have t: "take (length (takeWhile name_class ?r)) ?r = takeWhile name_class ?r"
    by (rule takeWhile_eq_take[symmetric])
  have m: "match_here (CapPlus name_class # lits close_tag) ?r =
     (if takeWhile name_class ?r \<noteq> [] \<and> prefix close_tag (dropWhile name_class ?r)
      then Some (takeWhile name_class ?r @ close_tag, Some (takeWhile name_class ?r)) else None)"
    using d t by (simp add: backtrack_close)
  have np: "name_pattern = lits open_tag @ (CapPlus name_class # lits close_tag)"
    by (simp add: name_pattern_def)
  show ?thesis
    by (simp only: np match_here_lits m) simp
qed

section \<open>Facts about the classifier\<close>

lemma search_str_None:
  "search_str p s = None \<longleftrightarrow> (\<forall>t \<in> set (suffixes s). match_here p t = None)"
  by (induction s) (auto split: option.splits)

text \<open>The loop over the five patterns, unrolled.\<close>

lemma check_login_success_full:
  "check_login_success (PyStr s) =
     (if sublist title_marker s then (Inr True, [InfoMatched title_marker])
      else if sublist personal_center s then (Inr True, [InfoMatched personal_center])
      else if sublist my_desktop s then (Inr True, [InfoMatched my_desktop])
      else if sublist academic_record s then (Inr True, [InfoMatched academic_record])
      else (case search_str name_pattern s of
              Some m \<Rightarrow> (Inr True, [InfoMatched (fst m)])
            | None \<Rightarrow> (Inr False, [ErrNoMarker])))"
  by (simp add: check_login_success_def patterns_def search_lits split: option.splits)

lemmas sample_defs =
  zhangsan_span_def zhangsan_def chenchuxin_span_def chenchuxin_def blank_span_def
  logout_span_def login_wall_def logout_label_def open_tag_def close_tag_def ascii_def
  title_marker_def personal_center_def my_desktop_def academic_record_def

lemma no_literal_marker_zhangsan:
  "\<not> sublist title_marker zhangsan_span \<and> \<not> sublist personal_center zhangsan_span \<and>
   \<not> sublist my_desktop zhangsan_span \<and> \<not> sublist academic_record zhangsan_span"
  by (simp add: sample_defs sublist_code)

lemma no_literal_marker_chenchuxin:
  "\<not> sublist title_marker chenchuxin_span \<and> \<not> sublist personal_center chenchuxin_span \<and>
   \<not> sublist my_desktop chenchuxin_span \<and> \<not> sublist academic_record chenchuxin_span"
  by (simp add: sample_defs sublist_code)

lemma no_literal_marker_blank:
  "\<not> sublist title_marker blank_span \<and> \<not> sublist personal_center blank_span \<and>
   \<not> sublist my_desktop blank_span \<and> \<not> sublist academic_record blank_span"
  by (simp add: sample_defs sublist_code)

lemma no_literal_marker_logout:
  "\<not> sublist title_marker logout_span \<and> \<not> sublist personal_center logout_span \<and>
   \<not> sublist my_desktop logout_span \<and> \<not> sublist academic_record logout_span"
  by (simp add: sample_defs sublist_code)

lemma no_literal_marker_wall:
  "\<not> sublist title_marker login_wall \<and> \<not> sublist personal_center login_wall \<and>
   \<not> sublist my_desktop login_wall \<and> \<not> sublist academic_record login_wall"
  by (simp add: sample_defs sublist_code)

lemma search_name_zhangsan:
  "search_str name_pattern zhangsan_span = Some (zhangsan_span, Some zhangsan)"
  by (simp add: sample_defs match_here_name name_class_def)

lemma search_name_blank:
  "search_str name_pattern blank_span = Some (blank_span, Some [0x20])"
  by (simp add: sample_defs match_here_name name_class_def)

lemma search_name_chenchuxin: "search_str name_pattern chenchuxin_span = None"
  by (simp add: sample_defs match_here_name name_class_def)

lemma search_name_logout: "search_str name_pattern logout_span = None"
  by (simp add: sample_defs match_here_name name_class_def)

lemma search_name_wall: "search_str name_pattern login_wall = None"
  by (simp add: sample_defs match_here_name name_class_def)

section \<open>Facts about traces\<close>

lemma trace_emit: "trace (emit ls st) = trace st @ map Log ls"
  by (simp add: emit_def)

lemma world_emit: "world (emit ls st) = world st"
  by (simp add: emit_def)

lemma gets_append: "gets (xs @ ys) = gets xs @ gets ys"
  by (induction xs rule: gets.induct) auto

lemma gets_map_Log: "gets (map Log ls) = []"
  by (induction ls) auto

lemma check_loop_no_base: "fst (check_loop ps html) = Inl e \<Longrightarrow> e = TypeError"
  by (induction ps) (cases html; auto split: option.splits)+

lemma check_login_success_exn: "fst (check_login_success html) = Inl e \<Longrightarrow> e = TypeError"
  unfolding check_login_success_def by (rule check_loop_no_base)


section \<open>Facts about the sample runs\<close>

lemmas run_defs = login_def complete_sso_login_def sso_except_def do_get_def start_def Let_def
lemmas trace_simps = trace_emit world_emit gets_append gets_map_Log

lemma scripted_simps:
  "get_token (scripted_env tok rs) w u p t = (tok, w)"
  "session_get (scripted_env tok rs) w url a = (scripted_get rs w, Suc w)"
  "session_bool (scripted_env tok rs) w = True"
  "headers_update (scripted_env tok rs) w hs = w"
  by (simp_all add: scripted_env_def)

lemma ticket_url_nonempty: "ticket_url \<noteq> []"
  by (simp add: ticket_url_def ascii_def)

lemma check_my_desktop: "check_login_success (PyStr my_desktop) = (Inr True, [InfoMatched my_desktop])"
  by (simp add: check_login_success_full my_desktop_def title_marker_def personal_center_def sublist_code)

lemma check_login_wall: "check_login_success (PyStr login_wall) = (Inr False, [ErrNoMarker])"
  using no_literal_marker_wall by (simp add: check_login_success_full search_name_wall)

lemma check_none: "check_login_success PyNone = (Inl TypeError, [])"
  by (simp add: check_login_success_def patterns_def)

lemmas eval_simps = run_defs scripted_simps scripted_get_def ticket_url_nonempty emit_def page_def
  check_my_desktop check_login_wall check_none timeout_error_def refused_error_def

lemma run_authenticated:
  "login env_authenticated sample_user sample_password (start 0) =
     (Inr True,
      \<lparr>world = 3,
       trace = [Log InfoGettingToken, Log (InfoGotRedirect ticket_url),
                Get ticket_url (Some True) (Inr (page 200 (PyStr []))),
                Log (InfoRedirectStatus 200), Log (DebugRedirectHeaders []), Log InfoVisitingSso,
                Get sso_url (Some True) (Inr (page 200 (PyStr []))),
                Log (InfoSsoStatus 200), Log (DebugSsoHeaders []),
                Get main_url (Some True) (Inr (page 200 (PyStr my_desktop))),
                Log (InfoMainStatus 200), Log (DebugMainHeaders []),
                Log (InfoMatched my_desktop), Log InfoLoginOk]\<rparr>)"
  by (simp add: env_authenticated_def eval_simps)

lemma run_odd_statuses:
  "login env_odd_statuses sample_user sample_password (start 0) =
     (Inr True,
      \<lparr>world = 3,
       trace = [Log InfoGettingToken, Log (InfoGotRedirect ticket_url),
                Get ticket_url (Some True) (Inr (page 404 (PyStr []))),
                Log (InfoRedirectStatus 404), Log (DebugRedirectHeaders []), Log InfoVisitingSso,
                Get sso_url (Some True) (Inr (page 500 (PyStr []))),
                Log (InfoSsoStatus 500), Log (DebugSsoHeaders []),
                Get main_url (Some True) (Inr (page 200 (PyStr my_desktop))),
                Log (InfoMainStatus 200), Log (DebugMainHeaders []),
                Log (InfoMatched my_desktop), Log InfoLoginOk]\<rparr>)"
  by (simp add: env_odd_statuses_def eval_simps)

lemma run_login_wall:
  "login env_login_wall sample_user sample_password (start 0) =
     (Inr False,
      \<lparr>world = 3,
       trace = [Log InfoGettingToken, Log (InfoGotRedirect ticket_url),
                Get ticket_url (Some True) (Inr (page 200 (PyStr []))),
                Log (InfoRedirectStatus 200), Log (DebugRedirectHeaders []), Log InfoVisitingSso,
                Get sso_url (Some True) (Inr (page 200 (PyStr []))),
                Log (InfoSsoStatus 200), Log (DebugSsoHeaders []),
                Get main_url (Some True) (Inr (page 200 (PyStr login_wall))),
                Log (InfoMainStatus 200), Log (DebugMainHeaders []),
                Log ErrNoMarker, Log ErrLoginFailed]\<rparr>)"
  by (simp add: env_login_wall_def eval_simps)

lemma run_body_none:
  "login env_body_none sample_user sample_password (start 0) =
     (Inr False,
      \<lparr>world = 3,
       trace = [Log InfoGettingToken, Log (InfoGotRedirect ticket_url),
                Get ticket_url (Some True) (Inr (page 200 (PyStr []))),
                Log (InfoRedirectStatus 200), Log (DebugRedirectHeaders []), Log InfoVisitingSso,
                Get sso_url (Some True) (Inr (page 200 (PyStr []))),
                Log (InfoSsoStatus 200), Log (DebugSsoHeaders []),
                Get main_url (Some True) (Inr (page 200 PyNone)),
                Log (InfoMainStatus 200), Log (DebugMainHeaders []),
                Log (ErrSsoError TypeError)]\<rparr>)"
  by (simp add: env_body_none_def eval_simps)

lemma run_bad_credentials:
  "login env_bad_credentials sample_user sample_password (start 0) =
     (Inr False, \<lparr>world = 0, trace = [Log InfoGettingToken, Log ErrTokenFailed]\<rparr>)"
  by (simp add: env_bad_credentials_def eval_simps)

lemma run_timeout:
  "login env_timeout sample_user sample_password (start 0) =
     (Inr False,
      \<lparr>world = 1,
       trace = [Log InfoGettingToken, Log (InfoGotRedirect ticket_url),
                Get ticket_url (Some True) (Inl timeout_error),
                Log (ErrSsoError timeout_error)]\<rparr>)"
  by (simp add: env_timeout_def eval_simps)

lemma run_bootstrap_refused:
  "login env_bootstrap_refused sample_user sample_password (start 0) =
     (Inr False,
      \<lparr>world = 2,
       trace = [Log InfoGettingToken, Log (InfoGotRedirect ticket_url),
                Get ticket_url (Some True) (Inr (page 200 (PyStr []))),
                Log (InfoRedirectStatus 200), Log (DebugRedirectHeaders []), Log InfoVisitingSso,
                Get sso_url (Some True) (Inl refused_error),
                Log (ErrSsoError refused_error)]\<rparr>)"
  by (simp add: env_bootstrap_refused_def eval_simps)

lemma search_userid_blank: "search_str (userid_pattern d) blank_span = None"
  by (simp add: userid_pattern_def match_here_lits sample_defs)

lemma parse_blank: "parse_student_info d (PyStr blank_span) = Inr Map.empty"
  by (simp add: parse_student_info_def search_name_blank search_userid_blank strip_def isspace_def)

section \<open>The classifier\<close>

text \<open>
  Claim C8. A body that contains the platform title is classified as logged in, whatever
  else it contains: the title is the first pattern tried, so it is also the match that is
  logged.
\<close>

theorem title_marker_suffices:
  assumes "sublist title_marker s"
  shows "check_login_success (PyStr s) = (Inr True, [InfoMatched title_marker])"
  using assms by (simp add: check_login_success_full)

text \<open>
  Witness of C8: the title followed by the logout control.
\<close>

theorem title_marker_suffices_witness:
  "sublist title_marker (title_marker @ logout_span) \<and>
   check_login_success (PyStr (title_marker @ logout_span)) =
     (Inr True, [InfoMatched title_marker])"
  using title_marker_suffices [of "title_marker @ logout_span"]
  by simp

text \<open>
  Claim C9. A body that contains the span with the logout label, none of the four literal
  markers, and no other span of that class (wherever the opening tag occurs, the logout
  span starts there) is classified as not logged in.
\<close>

theorem logout_span_not_accepted:
  assumes "sublist logout_span s"
    and "\<not> sublist title_marker s" and "\<not> sublist personal_center s"
    and "\<not> sublist my_desktop s" and "\<not> sublist academic_record s"
    and "\<forall>t \<in> set (suffixes s). prefix open_tag t \<longrightarrow> prefix logout_span t"
  shows "check_login_success (PyStr s) = (Inr False, [ErrNoMarker])"
proof -
  have "match_here name_pattern t = None" if t: "t \<in> set (suffixes s)" for t
  proof (cases "prefix open_tag t")
    case False
    then show ?thesis by (simp add: match_here_name)
  next
    case True
    with t assms(6) have "prefix logout_span t" by blast
    then obtain z where "t = open_tag @ (0x9000 # 0x51FA # close_tag) @ z"
      by (auto simp: prefix_def logout_span_def logout_label_def)
    then have "takeWhile name_class (drop (length open_tag) t) = []"
      by (simp add: name_class_def)
    then show ?thesis by (simp add: match_here_name)
  qed
  then have "search_str name_pattern s = None" by (simp add: search_str_None)
  with assms(2-5) show ?thesis by (simp add: check_login_success_full)
qed

text \<open>
  Witness of C9: the body that is just the logout span; the opening tag occurs in it at
  the start only.
\<close>

theorem logout_span_not_accepted_witness:
  "sublist logout_span logout_span \<and>
   \<not> sublist title_marker logout_span \<and> \<not> sublist personal_center logout_span \<and>
   \<not> sublist my_desktop logout_span \<and> \<not> sublist academic_record logout_span \<and>
   filter (prefix open_tag) (suffixes logout_span) = [logout_span] \<and>
   check_login_success (PyStr logout_span) = (Inr False, [ErrNoMarker])"
proof -
  have f: "filter (prefix open_tag) (suffixes logout_span) = [logout_span]"
    by (simp add: sample_defs suffixes.simps)
  have h: "\<forall>t \<in> set (suffixes logout_span). prefix open_tag t \<longrightarrow> prefix logout_span t"
  proof (intro ballI impI)
    fix t assume "t \<in> set (suffixes logout_span)" and "prefix open_tag t"
    then have "t \<in> set (filter (prefix open_tag) (suffixes logout_span))"
      by simp
    then have "t = logout_span" by (simp only: f) simp
    then show "prefix logout_span t" by simp
  qed
  show ?thesis
    using logout_span_not_accepted [of logout_span] no_literal_marker_logout h f by simp
qed

text \<open>
  Claim C2, at the inputs that decide it. The span holding the name Zhang San is matched
  and the name is captured. The span holding the name Chen Chuxin is not: the name, trimmed,
  is neither empty nor the logout label, but its middle character is the second character
  of the logout label and the character class of the pattern leaves out each character of
  the label, not the label as a whole.
\<close>

theorem name_with_logout_character_rejected:
  "search_str name_pattern zhangsan_span = Some (zhangsan_span, Some zhangsan) \<and>
   check_login_success (PyStr zhangsan_span) = (Inr True, [InfoMatched zhangsan_span]) \<and>
   strip chenchuxin = chenchuxin \<and> chenchuxin \<noteq> [] \<and> chenchuxin \<noteq> logout_label \<and>
   search_str name_pattern chenchuxin_span = None \<and>
   check_login_success (PyStr chenchuxin_span) = (Inr False, [ErrNoMarker])"
proof -
  have "strip chenchuxin = chenchuxin \<and> chenchuxin \<noteq> [] \<and> chenchuxin \<noteq> logout_label"
    by (simp add: strip_def isspace_def chenchuxin_def logout_label_def)
  then show ?thesis
    using no_literal_marker_zhangsan no_literal_marker_chenchuxin
    by (simp add: check_login_success_full search_name_zhangsan search_name_chenchuxin)
qed

text \<open>
  Claim C3, at the input that decides it. A span holding one space is matched by the name
  pattern (the capture is the space, untrimmed) and the classifier reports a login, although
  the capture is empty once trimmed. \<open>_parse_student_info\<close>, which uses the same pattern,
  trims the capture and finds no name in that body.
\<close>

theorem blank_capture_accepted:
  "search_str name_pattern blank_span = Some (blank_span, Some [0x20]) \<and>
   strip [0x20] = [] \<and>
   check_login_success (PyStr blank_span) = (Inr True, [InfoMatched blank_span]) \<and>
   parse_student_info d (PyStr blank_span) = Inr Map.empty"
  using no_literal_marker_blank
  by (simp add: check_login_success_full search_name_blank parse_blank strip_def isspace_def)

section \<open>The orchestrator\<close>

text \<open>
  Claim C1. A run of \<open>login\<close> returns \<open>True\<close> only when three GETs were issued, the
  third is the landing-page GET, it produced a response, and the classifier accepts the
  text of that response; and when the third GET produced a response whose text the
  classifier rejects, \<open>login\<close> returns \<open>False\<close>.
\<close>

theorem login_true_only_if_classifier_matched:
  "(fst (login env u p (start w)) = Inr True \<longrightarrow>
      (\<exists>g1 g2 r. gets (trace (snd (login env u p (start w)))) =
                    [g1, g2, (main_url, Some True, Inr r)] \<and>
                  fst (check_login_success (resp_text r)) = Inr True)) \<and>
   (\<forall>g1 g2 url a r.
      gets (trace (snd (login env u p (start w)))) = [g1, g2, (url, a, Inr r)] \<longrightarrow>
      fst (check_login_success (resp_text r)) = Inr False \<longrightarrow>
      fst (login env u p (start w)) = Inr False)"
  unfolding run_defs
  by (auto simp: trace_simps split: prod.splits sum.splits option.splits if_splits)

text \<open>
  Witness of C1: the run whose landing page shows the "my desktop" menu returns \<open>True\<close>;
  the run whose landing page is a login wall returns \<open>False\<close>.
\<close>

theorem login_true_only_if_classifier_matched_witness:
  "fst (login env_authenticated sample_user sample_password (start 0)) = Inr True \<and>
   (\<exists>g1 g2 r. gets (trace (snd (login env_authenticated sample_user sample_password (start 0)))) =
                 [g1, g2, (main_url, Some True, Inr r)] \<and>
               fst (check_login_success (resp_text r)) = Inr True) \<and>
   gets (trace (snd (login env_login_wall sample_user sample_password (start 0)))) =
     [(ticket_url, Some True, Inr (page 200 (PyStr []))),
      (sso_url, Some True, Inr (page 200 (PyStr []))),
      (main_url, Some True, Inr (page 200 (PyStr login_wall)))] \<and>
   fst (check_login_success (resp_text (page 200 (PyStr login_wall)))) = Inr False \<and>
   fst (login env_login_wall sample_user sample_password (start 0)) = Inr False"
  using login_true_only_if_classifier_matched
          [of env_authenticated sample_user sample_password 0]
        login_true_only_if_classifier_matched
          [of env_login_wall sample_user sample_password 0]
  by (simp add: run_authenticated run_login_wall check_login_wall page_def)

text \<open>
  Claim C4. When the credential exchange returns \<open>None\<close> or the empty string, \<open>login\<close>
  returns \<open>False\<close> at once: the trace holds the two log entries and no GET, and the world
  is the one the credential exchange left.
\<close>

theorem empty_token_no_get:
  assumes "get_token env w u p target_url = (Inr tok, w')"
    and "tok = None \<or> tok = Some []"
  shows "login env u p (start w) =
           (Inr False, \<lparr>world = w', trace = [Log InfoGettingToken, Log ErrTokenFailed]\<rparr>) \<and>
         gets (trace (snd (login env u p (start w)))) = []"
  using assms by (auto simp: login_def start_def emit_def Let_def)

text \<open>
  Witness of C4: the exchange that returns \<open>None\<close>, and the one that returns the empty
  string.
\<close>

theorem empty_token_no_get_witness:
  "get_token env_bad_credentials 0 sample_user sample_password target_url = (Inr None, 0) \<and>
   login env_bad_credentials sample_user sample_password (start 0) =
     (Inr False, \<lparr>world = 0, trace = [Log InfoGettingToken, Log ErrTokenFailed]\<rparr>) \<and>
   gets (trace (snd (login env_bad_credentials sample_user sample_password (start 0)))) = [] \<and>
   get_token (scripted_env (Inr (Some [])) []) 0 sample_user sample_password target_url =
     (Inr (Some []), 0) \<and>
   login (scripted_env (Inr (Some [])) []) sample_user sample_password (start 0) =
     (Inr False, \<lparr>world = 0, trace = [Log InfoGettingToken, Log ErrTokenFailed]\<rparr>)"
  using empty_token_no_get [of env_bad_credentials 0 sample_user sample_password None 0]
        empty_token_no_get [of "scripted_env (Inr (Some [])) []" 0 sample_user sample_password "Some []" 0]
  by (simp add: env_bad_credentials_def scripted_simps)

text \<open>
  Claim C5 as stated fails: a run whose redemption GET times out returns \<open>False\<close>, the
  very value returned when the credential exchange yields nothing, so the caller cannot
  tell a transport failure from a rejected login.
\<close>

theorem transport_failure_same_as_not_authenticated:
  "fst (login env_timeout sample_user sample_password (start 0)) = Inr False \<and>
   fst (login env_timeout sample_user sample_password (start 0)) =
     fst (login env_bad_credentials sample_user sample_password (start 0))"
  by (simp add: run_timeout run_bad_credentials)

text \<open>
  Claim C5, amended. When a GET of the chain raises an \<open>Exception\<close>, \<open>login\<close> returns
  \<open>False\<close>, and the failing GET is followed in the trace by one event only, the error log
  entry carrying the cause: no further GET is attempted.
\<close>

theorem get_failure_stops_chain:
  assumes "Get url a (Inl e) \<in> set (trace (snd (login env u p (start w))))"
    and "is_Exception e"
  shows "fst (login env u p (start w)) = Inr False \<and>
         (\<exists>pre. trace (snd (login env u p (start w))) =
                  pre @ [Get url a (Inl e), Log (ErrSsoError e)])"
  using assms unfolding run_defs
  by (auto simp: trace_simps emit_def split: prod.splits sum.splits option.splits if_splits)

text \<open>
  Witness of C5: the run whose redemption GET times out.
\<close>

theorem get_failure_stops_chain_witness:
  "Get ticket_url (Some True) (Inl timeout_error) \<in>
     set (trace (snd (login env_timeout sample_user sample_password (start 0)))) \<and>
   is_Exception timeout_error \<and>
   fst (login env_timeout sample_user sample_password (start 0)) = Inr False \<and>
   (\<exists>pre. trace (snd (login env_timeout sample_user sample_password (start 0))) =
            pre @ [Get ticket_url (Some True) (Inl timeout_error), Log (ErrSsoError timeout_error)])"
  using get_failure_stops_chain
          [of ticket_url "Some True" timeout_error env_timeout sample_user sample_password 0]
  by (simp add: run_timeout timeout_error_def)

text \<open>
  Claim C6 as stated fails: when the landing page comes back without a text the classifier
  raises \<open>TypeError\<close>, and \<open>login\<close> returns \<open>False\<close> instead of letting the exception
  reach the caller.
\<close>

theorem classifier_error_caught_counterexample:
  "fst (check_login_success (resp_text (page 200 PyNone))) = Inl TypeError \<and>
   gets (trace (snd (login env_body_none sample_user sample_password (start 0)))) =
     [(ticket_url, Some True, Inr (page 200 (PyStr []))),
      (sso_url, Some True, Inr (page 200 (PyStr []))),
      (main_url, Some True, Inr (page 200 PyNone))] \<and>
   fst (login env_body_none sample_user sample_password (start 0)) = Inr False"
  by (simp add: run_body_none check_none page_def)

text \<open>
  Claim C6, amended. The \<open>try\<close> block encloses the classifier call: when the classifier
  raises on the text of the landing page, \<open>login\<close> returns \<open>False\<close> and the last event of
  the run is the error log entry carrying the exception.
\<close>

theorem classifier_error_caught:
  assumes "gets (trace (snd (login env u p (start w)))) = [g1, g2, (url, a, Inr r)]"
    and "fst (check_login_success (resp_text r)) = Inl e"
  shows "fst (login env u p (start w)) = Inr False \<and>
         last (trace (snd (login env u p (start w)))) = Log (ErrSsoError e)"
proof -
  from assms(2) have e: "e = TypeError" by (rule check_login_success_exn)
  show ?thesis
    using assms unfolding e run_defs
    by (auto simp: trace_simps emit_def split: prod.splits sum.splits option.splits if_splits)
qed

text \<open>
  Witness of C6: the run whose landing page has no text.
\<close>

theorem classifier_error_caught_witness:
  "gets (trace (snd (login env_body_none sample_user sample_password (start 0)))) =
     [(ticket_url, Some True, Inr (page 200 (PyStr []))),
      (sso_url, Some True, Inr (page 200 (PyStr []))),
      (main_url, Some True, Inr (page 200 PyNone))] \<and>
   fst (check_login_success (resp_text (page 200 PyNone))) = Inl TypeError \<and>
   fst (login env_body_none sample_user sample_password (start 0)) = Inr False \<and>
   last (trace (snd (login env_body_none sample_user sample_password (start 0)))) =
     Log (ErrSsoError TypeError)"
  using classifier_error_caught
          [of env_body_none sample_user sample_password 0
              "(ticket_url, Some True, Inr (page 200 (PyStr [])))"
              "(sso_url, Some True, Inr (page 200 (PyStr [])))"
              main_url "Some True" "page 200 PyNone" TypeError]
  by (simp add: run_body_none check_none page_def)

text \<open>
  Claim C7. No status code gates a GET. When the redemption GET produces a response,
  whatever its status code, the next GET is the bootstrap GET; and when that one produces
  a response too, whatever its status code, the landing-page GET follows and is the last
  GET of the run. The chain is cut short only by a GET that raises, which ends the run.
\<close>

theorem gets_after_redemption:
  assumes "gets (trace (snd (login env u p (start w)))) = (url1, a1, Inr r1) # rest"
  shows "(\<exists>e. rest = [(sso_url, Some True, Inl e)]) \<or>
         (\<exists>r2 x. rest = [(sso_url, Some True, Inr r2), (main_url, Some True, x)])"
  using assms unfolding run_defs
  by (auto simp: trace_simps emit_def split: prod.splits sum.splits option.splits if_splits)

text \<open>
  Witness of C7: the run whose redemption and bootstrap GETs answer 404 and 500 goes on to
  the landing page; the run whose bootstrap GET is refused stops there.
\<close>

theorem gets_after_redemption_witness:
  "gets (trace (snd (login env_odd_statuses sample_user sample_password (start 0)))) =
     (ticket_url, Some True, Inr (page 404 (PyStr []))) #
     [(sso_url, Some True, Inr (page 500 (PyStr []))),
      (main_url, Some True, Inr (page 200 (PyStr my_desktop)))] \<and>
   ((\<exists>e. [(sso_url, Some True, Inr (page 500 (PyStr []))),
           (main_url, Some True, Inr (page 200 (PyStr my_desktop)))] =
          [(sso_url, Some True, Inl e)]) \<or>
    (\<exists>r2 x. [(sso_url, Some True, Inr (page 500 (PyStr []))),
              (main_url, Some True, Inr (page 200 (PyStr my_desktop)))] =
             [(sso_url, Some True, Inr r2), (main_url, Some True, x)])) \<and>
   gets (trace (snd (login env_bootstrap_refused sample_user sample_password (start 0)))) =
     (ticket_url, Some True, Inr (page 200 (PyStr []))) #
     [(sso_url, Some True, Inl refused_error)]"
  using gets_after_redemption
          [of env_odd_statuses sample_user sample_password 0 ticket_url "Some True"
              "page 404 (PyStr [])"
              "[(sso_url, Some True, Inr (page 500 (PyStr []))),
                (main_url, Some True, Inr (page 200 (PyStr my_desktop)))]"]
        gets_after_redemption
          [of env_bootstrap_refused sample_user sample_password 0 ticket_url "Some True"
              "page 200 (PyStr [])" "[(sso_url, Some True, Inl refused_error)]"]
  by (simp add: run_odd_statuses run_bootstrap_refused)

end
